theory Spec2Isabelle
  imports Main
begin

section \<open>Python strings and slices\<close>

text \<open>
  A Python \<open>str\<close> is a sequence of code points and \<open>len\<close> counts them.  The model
  uses \<^typ>\<open>string\<close> with one \<^typ>\<open>char\<close> per code point, which covers the code points
  U+0000 to U+00FF.  On that range \<open>str.isspace\<close> holds for the characters below, and
  \<open>str.lower\<close> maps A-Z and the accented capitals U+00C0 to U+00DE (without the
  multiplication sign U+00D7) to the character 32 places further.
\<close>

abbreviation nl :: char where
  "nl \<equiv> CHR 0x0A"

definition is_space :: "char \<Rightarrow> bool" where
  "is_space c = (let n = (of_char c :: nat) in
     (9 \<le> n \<and> n \<le> 13) \<or> (28 \<le> n \<and> n \<le> 32) \<or> n = 133 \<or> n = 160)"

definition strip :: "string \<Rightarrow> string" where
  "strip s = rev (dropWhile is_space (rev (dropWhile is_space s)))"

definition lower_char :: "char \<Rightarrow> char" where
  "lower_char c = (let n = (of_char c :: nat) in
     if (65 \<le> n \<and> n \<le> 90) \<or> (192 \<le> n \<and> n \<le> 222 \<and> n \<noteq> 215)
     then char_of (n + 32) else c)"

definition lower :: "string \<Rightarrow> string" where
  "lower s = map lower_char s"

text \<open>\<open>str.upper\<close> is only applied to a message role, which is ASCII.\<close>

definition upper_char :: "char \<Rightarrow> char" where
  "upper_char c = (let n = (of_char c :: nat) in
     if 97 \<le> n \<and> n \<le> 122 then char_of (n - 32) else c)"

definition upper :: "string \<Rightarrow> string" where
  "upper s = map upper_char s"

text \<open>\<open>sep.join(parts)\<close>\<close>

fun join :: "string \<Rightarrow> string list \<Rightarrow> string" where
  "join sep [] = []"
| "join sep [x] = x"
| "join sep (x # y # ys) = x @ sep @ join sep (y # ys)"

text \<open>
  The slices \<open>xs[i:]\<close> and \<open>xs[:j]\<close>: a negative bound counts from the end, and
  every bound is clamped to the list.  Note that \<open>-0\<close> is \<open>0\<close>, so \<open>xs[:-0]\<close>
  is the empty list and \<open>xs[-0:]\<close> is the whole list.
\<close>

definition slice_from :: "'a list \<Rightarrow> int \<Rightarrow> 'a list" where
  "slice_from xs i = (let n = int (length xs);
       s = (if i < 0 then max 0 (i + n) else min i n)
     in drop (nat s) xs)"

definition slice_upto :: "'a list \<Rightarrow> int \<Rightarrow> 'a list" where
  "slice_upto xs j = (let n = int (length xs);
       e = (if j < 0 then max 0 (j + n) else min j n)
     in take (nat e) xs)"

section \<open>core/tokens.py\<close>

definition estimate_tokens :: "string \<Rightarrow> int" where
  "estimate_tokens text =
     (if text = [] \<or> strip text = [] then 0
      else max 1 (int (length text) div 4))"

section \<open>services/memory/memory.py: messages and sessions\<close>

datatype role = User | Assistant

fun role_str :: "role \<Rightarrow> string" where
  "role_str User = ''user''"
| "role_str Assistant = ''assistant''"

record message =
  role :: role
  content :: string

record chat_session =
  summary :: string
  messages :: "message list"

text \<open>The line \<open>f"{m.role.upper()}: {m.content}"\<close> of a message.\<close>

definition render :: "message \<Rightarrow> string" where
  "render m = upper (role_str (role m)) @ '': '' @ content m"

definition transcript :: "chat_session \<Rightarrow> string" where
  "transcript session =
     (let parts = [];
          parts = (if strip (summary session) \<noteq> []
                   then parts @ [''SUMMARY SO FAR:'' @ [nl] @ strip (summary session)]
                   else parts);
          parts = (if messages session \<noteq> []
                   then parts @ [''RECENT MESSAGES:''] @ map render (messages session)
                   else parts)
      in strip (join [nl] parts))"

definition apply_sliding_window :: "chat_session \<Rightarrow> int \<Rightarrow> chat_session" where
  "apply_sliding_window session win =
     (if win \<le> 0 then session\<lparr>messages := []\<rparr>
      else if int (length (messages session)) > win
           then session\<lparr>messages := slice_from (messages session) (- win)\<rparr>
           else session)"

section \<open>The outside world: backends, Redis, and a trace of the calls made\<close>

text \<open>
  \<open>ValueError\<close> is the exception the service raises itself; every other exception
  (of a backend client, for instance) is an \<open>OtherException\<close>.
\<close>

datatype error = ValueError string | OtherException string

datatype event =
    EvGenerate string string
  | EvSummarize string string
  | EvGetSummary string
  | EvGetLastMessages string int
  | EvAppendMessages string "message list"
  | EvSetSummary string string
  | EvTrimMessages string int

text \<open>
  Redis holds lists and strings under keys.  A list holds the messages themselves
  (the JSON encoding and decoding of a message is taken as an identity), and a key
  that does not exist is the empty list.
\<close>

record world =
  redis_lists :: "string \<Rightarrow> message list"
  redis_strings :: "string \<Rightarrow> string option"
  trace :: "event list"

definition log_event :: "event \<Rightarrow> world \<Rightarrow> world" where
  "log_event e w = w\<lparr>trace := trace w @ [e]\<rparr>"

section \<open>services/llm/providers.py\<close>

text \<open>
  Both provider classes have the same shape: a name, a model and an SDK client.  The
  client is a parameter: given the model and the prompt it raises or returns the text
  of the response, which may be absent.
\<close>

record llm_provider =
  name :: string
  model :: string
  client :: "string \<Rightarrow> string \<Rightarrow> error + string option"

definition generate :: "llm_provider \<Rightarrow> string \<Rightarrow> world \<Rightarrow> (error + string) \<times> world" where
  "generate p prompt w =
     (let w' = log_event (EvGenerate (name p) prompt) w
      in case client p (model p) prompt of
           Inl e \<Rightarrow> (Inl e, w')
         | Inr response \<Rightarrow> (Inr (case response of None \<Rightarrow> [] | Some t \<Rightarrow> t), w'))"

definition summarize_prompt :: "string \<Rightarrow> string" where
  "summarize_prompt text =
     ''Summarize the key points of this chat so far.'' @ [nl, nl]
     @ ''Requirements:'' @ [nl]
     @ ''- Keep names, goals, constraints, decisions, and open questions'' @ [nl]
     @ ''- Use concise bullet points'' @ [nl]
     @ ''- Do not invent details'' @ [nl, nl]
     @ ''CHAT:'' @ [nl] @ text"

definition summarize :: "llm_provider \<Rightarrow> string \<Rightarrow> world \<Rightarrow> (error + string) \<times> world" where
  "summarize p text w =
     generate p (summarize_prompt text) (log_event (EvSummarize (name p) text) w)"

section \<open>services/memory/memory.py: rolling summary\<close>

definition apply_rolling_summary ::
  "chat_session \<Rightarrow> llm_provider \<Rightarrow> int \<Rightarrow> int \<Rightarrow> world \<Rightarrow> (error + chat_session) \<times> world" where
  "apply_rolling_summary session provider max_msgs keep w =
     (if max_msgs \<le> 0 then (Inr session, w)
      else if int (length (messages session)) \<le> max_msgs then (Inr session, w)
      else
        let keep = max 0 keep;
            older = (if keep < int (length (messages session))
                     then slice_upto (messages session) (- keep) else []);
            recent = (if keep > 0 then slice_from (messages session) (- keep) else [])
        in if older = [] then (Inr session, w)
           else
             let older_transcript = join [nl] (map render older);
                 older_transcript =
                   (if strip (summary session) \<noteq> []
                    then ''Existing summary:'' @ [nl] @ strip (summary session)
                         @ [nl, nl] @ ''New messages to incorporate:'' @ [nl]
                         @ older_transcript
                    else older_transcript)
             in case summarize provider older_transcript w of
                  (Inl e, w') \<Rightarrow> (Inl e, w')
                | (Inr r, w') \<Rightarrow> (Inr (session\<lparr>summary := strip r, messages := recent\<rparr>), w'))"

section \<open>db/redis_store.py\<close>

text \<open>
  The Redis commands the repository uses.  \<open>LRANGE\<close> and \<open>LTRIM\<close> take inclusive
  bounds; a negative bound counts from the end of the list, a start before the list
  is its beginning, and the range is empty when the start lies behind the stop or
  behind the list.
\<close>

definition lrange :: "'a list \<Rightarrow> int \<Rightarrow> int \<Rightarrow> 'a list" where
  "lrange xs start stop =
     (let llen = int (length xs);
          start = (if start < 0 then llen + start else start);
          stop = (if stop < 0 then llen + stop else stop);
          start = (if start < 0 then 0 else start)
      in if start > stop \<or> start \<ge> llen then []
         else let stop = (if stop \<ge> llen then llen - 1 else stop)
              in take (nat (stop - start + 1)) (drop (nat start) xs))"

definition key_messages :: "string \<Rightarrow> string" where
  "key_messages session_id = ''chat:session:'' @ session_id @ '':messages''"

definition key_summary :: "string \<Rightarrow> string" where
  "key_summary session_id = ''chat:session:'' @ session_id @ '':summary''"

definition get_last_messages :: "string \<Rightarrow> int \<Rightarrow> world \<Rightarrow> message list \<times> world" where
  "get_last_messages session_id limit w =
     (lrange (redis_lists w (key_messages session_id)) (- limit) (- 1),
      log_event (EvGetLastMessages session_id limit) w)"

definition get_summary :: "string \<Rightarrow> world \<Rightarrow> string \<times> world" where
  "get_summary session_id w =
     ((case redis_strings w (key_summary session_id) of
         None \<Rightarrow> []
       | Some val \<Rightarrow> if val = [] then [] else strip val),
      log_event (EvGetSummary session_id) w)"

definition rpush :: "string \<Rightarrow> message \<Rightarrow> world \<Rightarrow> world" where
  "rpush key m w = w\<lparr>redis_lists := (redis_lists w)(key := redis_lists w key @ [m])\<rparr>"

definition append_messages :: "string \<Rightarrow> message list \<Rightarrow> world \<Rightarrow> world" where
  "append_messages session_id msgs w =
     (let w = log_event (EvAppendMessages session_id msgs) w
      in if msgs = [] then w
         else fold (rpush (key_messages session_id)) msgs w)"

definition set_summary :: "string \<Rightarrow> string \<Rightarrow> world \<Rightarrow> world" where
  "set_summary session_id text w =
     (let w = log_event (EvSetSummary session_id text) w
      in w\<lparr>redis_strings := (redis_strings w)(key_summary session_id \<mapsto> text)\<rparr>)"

definition trim_messages :: "string \<Rightarrow> int \<Rightarrow> world \<Rightarrow> world" where
  "trim_messages session_id keep w =
     (let w = log_event (EvTrimMessages session_id keep) w;
          key = key_messages session_id
      in if keep \<le> 0 then w\<lparr>redis_lists := (redis_lists w)(key := [])\<rparr>
         else w\<lparr>redis_lists := (redis_lists w)(key := lrange (redis_lists w key) (- keep) (- 1))\<rparr>)"

section \<open>core/config.py\<close>

record settings =
  google_api_key :: string
  default_provider :: string
  gemini_model :: string
  ollama_host :: string
  ollama_model :: string
  redis_url :: string
  memory_strategy :: string
  fetch_last_n :: int
  max_tokens_before_summarize :: int
  max_messages :: int
  keep_last :: int
  window_size :: int

section \<open>services/chat_service.py\<close>

record chat_result =
  provider :: string
  reply :: string
  session_id :: "string option"

text \<open>
  The two SDK client constructors, \<open>genai.Client(api_key=...)\<close> and
  \<open>ollama.Client(host=...)\<close>, are parameters of the service.
\<close>

record sdk =
  genai_client :: "string \<Rightarrow> string \<Rightarrow> string \<Rightarrow> error + string option"
  ollama_client :: "string \<Rightarrow> string \<Rightarrow> string \<Rightarrow> error + string option"

text \<open>Python's \<open>x or y\<close> for an optional string and for an optional integer.\<close>

definition or_str :: "string option \<Rightarrow> string \<Rightarrow> string" where
  "or_str x y = (case x of None \<Rightarrow> y | Some v \<Rightarrow> if v = [] then y else v)"

definition or_int :: "int option \<Rightarrow> int \<Rightarrow> int" where
  "or_int x y = (case x of None \<Rightarrow> y | Some v \<Rightarrow> if v = 0 then y else v)"

definition ollama_provider :: "settings \<Rightarrow> sdk \<Rightarrow> llm_provider" where
  "ollama_provider s k =
     \<lparr>name = ''ollama'', model = ollama_model s, client = ollama_client k (ollama_host s)\<rparr>"

definition get_gemini :: "settings \<Rightarrow> sdk \<Rightarrow> error + llm_provider" where
  "get_gemini s k =
     (let key = google_api_key s
      in if key = [] then
           Inl (ValueError (''Gemini requires GOOGLE_API_KEY. Set GOOGLE_API_KEY=your_key in .env ''
                            @ ''(project root) and restart the server.''))
         else Inr \<lparr>name = ''gemini'', model = gemini_model s, client = genai_client k key\<rparr>)"

definition get_provider :: "settings \<Rightarrow> sdk \<Rightarrow> string \<Rightarrow> error + (string \<times> llm_provider)" where
  "get_provider s k prov =
     (let p = strip (lower prov)
      in if p \<in> set [''gemini'', []] then
           (case get_gemini s k of Inl e \<Rightarrow> Inl e | Inr g \<Rightarrow> Inr (''gemini'', g))
         else if p \<in> set [''ollama'', ''local''] then Inr (''ollama'', ollama_provider s k)
         else Inl (ValueError (''Provider must be '' @ [CHR 0x27] @ ''gemini'' @ [CHR 0x27]
                               @ '' or '' @ [CHR 0x27] @ ''ollama'' @ [CHR 0x27])))"

definition session_tokens :: "chat_session \<Rightarrow> int" where
  "session_tokens session = estimate_tokens (transcript session)"

definition ask ::
  "settings \<Rightarrow> sdk \<Rightarrow> string \<Rightarrow> string \<Rightarrow> string option \<Rightarrow> string option
     \<Rightarrow> int option \<Rightarrow> int option \<Rightarrow> int option \<Rightarrow> world \<Rightarrow> (error + chat_result) \<times> world" where
  "ask s k prompt prov sid memory max_messages_arg keep_last_arg window_size_arg w =
     (case get_provider s k prov of
        Inl e \<Rightarrow> (Inl e, w)
      | Inr (provider_name, llm) \<Rightarrow>
          let mem = or_str memory (or_str (Some (memory_strategy s)) ''rolling'');
              mem = (if mem \<in> set [''rolling'', ''window'', ''none''] then mem else ''rolling'')
          in if or_str sid [] = [] \<or> mem = ''none'' then
               (case generate llm prompt w of
                  (Inl e, w) \<Rightarrow> (Inl e, w)
                | (Inr text, w) \<Rightarrow>
                    (Inr \<lparr>provider = provider_name, reply = text, session_id = sid\<rparr>, w))
             else
               let sess_id = or_str sid [];
                   fetch_n = fetch_last_n s;
                   (summ, w) = get_summary sess_id w;
                   (msgs, w) = get_last_messages sess_id fetch_n w;
                   session = \<lparr>summary = summ, messages = msgs\<rparr>;
                   user_msg = \<lparr>role = User, content = prompt\<rparr>;
                   session = session\<lparr>messages := messages session @ [user_msg]\<rparr>;
                   max_tokens = max_tokens_before_summarize s;
                   keep_last_n = or_int keep_last_arg (keep_last s);
                   max_msg = or_int max_messages_arg (max_messages s);
                   win_size = or_int window_size_arg (window_size s);
                   (bounded, w) =
                     (if mem = ''rolling'' then
                        if session_tokens session > max_tokens then
                          (case apply_rolling_summary session llm max_msg keep_last_n w of
                             (Inl e, w) \<Rightarrow> (Inl e, w)
                           | (Inr session, w) \<Rightarrow>
                               (Inr session,
                                trim_messages sess_id keep_last_n
                                  (set_summary sess_id (summary session) w)))
                        else (Inr session, w)
                      else if mem = ''window'' then
                        (Inr (apply_sliding_window session win_size), w)
                      else (Inr session, w))
               in case bounded of
                    Inl e \<Rightarrow> (Inl e, w)
                  | Inr session \<Rightarrow>
                      let compiled_prompt = strip (transcript session) @ [nl, nl] @ ''ASSISTANT:''
                      in case generate llm compiled_prompt w of
                           (Inl e, w) \<Rightarrow> (Inl e, w)
                         | (Inr text, w) \<Rightarrow>
                             let text = strip text;
                                 assistant_msg = \<lparr>role = Assistant, content = text\<rparr>;
                                 w = append_messages sess_id [user_msg, assistant_msg] w;
                                 w = (if mem = ''window'' then trim_messages sess_id win_size w else w)
                             in (Inr \<lparr>provider = provider_name, reply = text, session_id = sid\<rparr>, w))"

section \<open>api/routes.py\<close>

datatype http_response =
    Ok string string "string option"
  | HTTPException int string

fun str_of_error :: "error \<Rightarrow> string" where
  "str_of_error (ValueError m) = m"
| "str_of_error (OtherException m) = m"

text \<open>
  The handler of \<open>GET /ask\<close>.  A query parameter that is absent takes its default:
  \<open>"gemini"\<close> for the provider and \<open>"rolling"\<close> for the memory mode.
\<close>

definition ask_ai ::
  "settings \<Rightarrow> sdk \<Rightarrow> string \<Rightarrow> string option \<Rightarrow> string option \<Rightarrow> string option
     \<Rightarrow> world \<Rightarrow> http_response \<times> world" where
  "ask_ai s k prompt prov sid memory w =
     (let prov = (case prov of None \<Rightarrow> ''gemini'' | Some p \<Rightarrow> p);
          memory = (case memory of None \<Rightarrow> ''rolling'' | Some m \<Rightarrow> m)
      in case ask s k prompt prov sid (Some memory) None None None w of
           (Inr result, w) \<Rightarrow> (Ok (provider result) (reply result) (session_id result), w)
         | (Inl (ValueError m), w) \<Rightarrow> (HTTPException 400 m, w)
         | (Inl e, w) \<Rightarrow> (HTTPException 500 (str_of_error e), w))"

section \<open>Properties of the estimator and of the sliding window\<close>

lemma strip_Nil_iff: "strip s = [] \<longleftrightarrow> (\<forall>c \<in> set s. is_space c)"
proof -
  have "(\<forall>c \<in> set (dropWhile is_space s). is_space c) \<longleftrightarrow> dropWhile is_space s = []"
  proof
    assume a: "\<forall>c \<in> set (dropWhile is_space s). is_space c"
    show "dropWhile is_space s = []"
    proof (rule ccontr)
      assume n: "dropWhile is_space s \<noteq> []"
      then have "\<not> is_space (hd (dropWhile is_space s))" by (rule hd_dropWhile)
      moreover have "hd (dropWhile is_space s) \<in> set (dropWhile is_space s)"
        using n by simp
      ultimately show False using a by blast
    qed
  qed (simp del: dropWhile_eq_Nil_conv)
  then have "strip s = [] \<longleftrightarrow> dropWhile is_space s = []"
    by (simp add: strip_def dropWhile_eq_Nil_conv)
  then show ?thesis by (simp add: dropWhile_eq_Nil_conv)
qed

text \<open>
  C9.  The length estimator is a function of the text alone, its value is never
  negative, it is 0 on every text made of whitespace only (the empty text included),
  and appending a suffix to a text never lowers the estimate.
\<close>

theorem estimate_tokens_spec:
  "0 \<le> estimate_tokens text
   \<and> ((\<forall>c \<in> set text. is_space c) \<longrightarrow> estimate_tokens text = 0)
   \<and> estimate_tokens text \<le> estimate_tokens (text @ suffix)"
proof (intro conjI impI)
  show "0 \<le> estimate_tokens text" by (simp add: estimate_tokens_def max_def)
  show "estimate_tokens text = 0" if "\<forall>c \<in> set text. is_space c"
    using that by (simp add: estimate_tokens_def strip_Nil_iff)
  show "estimate_tokens text \<le> estimate_tokens (text @ suffix)"
  proof (cases "strip text = []")
    case True
    then show ?thesis by (simp add: estimate_tokens_def max_def)
  next
    case False
    then have "strip (text @ suffix) \<noteq> []" by (auto simp: strip_Nil_iff)
    moreover have "int (length text) div 4 \<le> int (length (text @ suffix)) div 4"
      by (intro zdiv_mono1) simp_all
    ultimately show ?thesis using False by (auto simp: estimate_tokens_def)
  qed
qed

theorem estimate_tokens_spec_witness:
  "is_space (CHR '' '') \<and> is_space nl \<and> estimate_tokens [CHR '' '', nl] = 0
   \<and> estimate_tokens [CHR '' '', nl] \<le> estimate_tokens ([CHR '' '', nl] @ ''hello world'')
   \<and> estimate_tokens ''hello world'' = 2"
  using estimate_tokens_spec [of "[CHR '' '', nl]" "''hello world''"]
  by (simp add: is_space_def estimate_tokens_def strip_def)

text \<open>
  C2.  The sliding window never touches the summary.  With a window size of at most 0
  the messages become empty; otherwise they become the trailing slice of the original
  list of length \<open>min (length messages) window_size\<close>, in the original order, and a
  session that already fits the window is returned unchanged.
\<close>

theorem apply_sliding_window_spec:
  "summary (apply_sliding_window session win) = summary session
   \<and> messages (apply_sliding_window session win) =
       (if win \<le> 0 then []
        else drop (length (messages session) - min (length (messages session)) (nat win))
               (messages session))
   \<and> (0 < win \<longrightarrow> length (messages (apply_sliding_window session win))
         = min (length (messages session)) (nat win))
   \<and> (0 < win \<and> int (length (messages session)) \<le> win
         \<longrightarrow> apply_sliding_window session win = session)"
  by (auto simp: apply_sliding_window_def slice_from_def Let_def min_def max_def nat_diff_distrib')

theorem apply_sliding_window_spec_witness:
  "(0::int) < 2
   \<and> messages (apply_sliding_window
        \<lparr>summary = ''s'',
         messages = [\<lparr>role = User, content = ''a''\<rparr>, \<lparr>role = Assistant, content = ''b''\<rparr>,
                     \<lparr>role = User, content = ''c''\<rparr>]\<rparr> 2)
       = [\<lparr>role = Assistant, content = ''b''\<rparr>, \<lparr>role = User, content = ''c''\<rparr>]"
  using apply_sliding_window_spec
    [of "\<lparr>summary = ''s'',
         messages = [\<lparr>role = User, content = ''a''\<rparr>, \<lparr>role = Assistant, content = ''b''\<rparr>,
                     \<lparr>role = User, content = ''c''\<rparr>]\<rparr>" 2]
  by simp

section \<open>Properties of the rolling summary\<close>

lemma slice_upto_neg:
  "0 < k \<Longrightarrow> k < int (length xs) \<Longrightarrow> slice_upto xs (- k) = take (length xs - nat k) xs"
  by (simp add: slice_upto_def Let_def max_def nat_diff_distrib')

lemma slice_from_neg:
  "0 < k \<Longrightarrow> k < int (length xs) \<Longrightarrow> slice_from xs (- k) = drop (length xs - nat k) xs"
  by (simp add: slice_from_def Let_def max_def nat_diff_distrib')

text \<open>
  C6.  The rolling summary changes neither the session nor the world (so the backend
  is not called) when \<open>max_messages \<le> 0\<close>, when the session holds at most
  \<open>max_messages\<close> messages, or when the older part is empty: the clamped
  \<open>keep_last\<close> is at least the number of messages, or the slice
  \<open>messages[:-keep_last]\<close> is empty.
\<close>

theorem apply_rolling_summary_noop:
  assumes "max_msgs \<le> 0
     \<or> int (length (messages session)) \<le> max_msgs
     \<or> int (length (messages session)) \<le> max 0 keep
     \<or> slice_upto (messages session) (- max 0 keep) = []"
  shows "apply_rolling_summary session llm max_msgs keep w = (Inr session, w)"
  using assms by (auto simp: apply_rolling_summary_def Let_def)

theorem apply_rolling_summary_noop_witness:
  "apply_rolling_summary
      \<lparr>summary = [],
       messages = [\<lparr>role = User, content = ''a''\<rparr>, \<lparr>role = Assistant, content = ''b''\<rparr>,
                   \<lparr>role = User, content = ''c''\<rparr>]\<rparr>
      \<lparr>name = ''ollama'', model = ''llama3'', client = (\<lambda>_ _. Inr (Some '' digest ''))\<rparr> 2 5
      \<lparr>redis_lists = (\<lambda>_. []), redis_strings = (\<lambda>_. None), trace = []\<rparr>
   = (Inr \<lparr>summary = [],
       messages = [\<lparr>role = User, content = ''a''\<rparr>, \<lparr>role = Assistant, content = ''b''\<rparr>,
                   \<lparr>role = User, content = ''c''\<rparr>]\<rparr>,
      \<lparr>redis_lists = (\<lambda>_. []), redis_strings = (\<lambda>_. None), trace = []\<rparr>)"
  using apply_rolling_summary_noop
    [of 2 "\<lparr>summary = [],
       messages = [\<lparr>role = User, content = ''a''\<rparr>, \<lparr>role = Assistant, content = ''b''\<rparr>,
                   \<lparr>role = User, content = ''c''\<rparr>]\<rparr>" 5
        "\<lparr>name = ''ollama'', model = ''llama3'', client = (\<lambda>_ _. Inr (Some '' digest ''))\<rparr>"
        "\<lparr>redis_lists = (\<lambda>_. []), redis_strings = (\<lambda>_. None), trace = []\<rparr>"]
  by simp

text \<open>
  C1, as the code has it.  Let the session hold more than \<open>max_messages > 0\<close>
  messages and let \<open>0 < keep_last < length messages\<close>.  The backend's summarize is
  called once, on the rendering of all but the last \<open>keep_last\<close> messages, prefixed by
  the prior summary when that is not blank.  If the call fails, so does the strategy;
  otherwise the summary becomes the stripped result of the call (which may be empty),
  replacing the old one, and the messages become the last \<open>keep_last\<close> messages in
  their order.
\<close>

theorem apply_rolling_summary_compacts:
  assumes "0 < max_msgs" and "max_msgs < int (length (messages session))"
    and "0 < keep" and "keep < int (length (messages session))"
  shows "apply_rolling_summary session llm max_msgs keep w =
           (let older = take (length (messages session) - nat keep) (messages session);
                recent = drop (length (messages session) - nat keep) (messages session);
                older_transcript = join [nl] (map render older);
                older_transcript =
                  (if strip (summary session) \<noteq> []
                   then ''Existing summary:'' @ [nl] @ strip (summary session)
                        @ [nl, nl] @ ''New messages to incorporate:'' @ [nl] @ older_transcript
                   else older_transcript)
            in case summarize llm older_transcript w of
                 (Inl e, w') \<Rightarrow> (Inl e, w')
               | (Inr r, w') \<Rightarrow> (Inr (session\<lparr>summary := strip r, messages := recent\<rparr>), w'))
         \<and> length (drop (length (messages session) - nat keep) (messages session)) = nat keep"
proof -
  have older: "slice_upto (messages session) (- keep) \<noteq> []"
    using assms(3,4) by (auto simp: slice_upto_neg)
  show ?thesis
    using assms older
    by (simp add: apply_rolling_summary_def Let_def slice_upto_neg slice_from_neg max_def
        split: prod.splits sum.splits)
qed

theorem apply_rolling_summary_compacts_witness:
  "(0::int) < 2 \<and> (1::int) < 3
   \<and> fst (apply_rolling_summary
      \<lparr>summary = [],
       messages = [\<lparr>role = User, content = ''a''\<rparr>, \<lparr>role = Assistant, content = ''b''\<rparr>,
                   \<lparr>role = User, content = ''c''\<rparr>]\<rparr>
      \<lparr>name = ''ollama'', model = ''llama3'', client = (\<lambda>_ _. Inr (Some '' digest ''))\<rparr> 2 1
      \<lparr>redis_lists = (\<lambda>_. []), redis_strings = (\<lambda>_. None), trace = []\<rparr>)
     = Inr \<lparr>summary = ''digest'', messages = [\<lparr>role = User, content = ''c''\<rparr>]\<rparr>"
  using apply_rolling_summary_compacts
    [of 2 "\<lparr>summary = [],
       messages = [\<lparr>role = User, content = ''a''\<rparr>, \<lparr>role = Assistant, content = ''b''\<rparr>,
                   \<lparr>role = User, content = ''c''\<rparr>]\<rparr>" 1
        "\<lparr>name = ''ollama'', model = ''llama3'', client = (\<lambda>_ _. Inr (Some '' digest ''))\<rparr>"
        "\<lparr>redis_lists = (\<lambda>_. []), redis_strings = (\<lambda>_. None), trace = []\<rparr>"]
  by (simp add: Let_def summarize_def generate_def strip_def is_space_def)

text \<open>
  C1 as stated fails twice.  A backend whose response carries no text gives an empty
  summary; and with \<open>keep_last = 0\<close> the slice \<open>messages[:-0]\<close> is empty, so the
  session of three messages is left as it was instead of being cut to no messages.
\<close>

theorem apply_rolling_summary_counterexample:
  "fst (apply_rolling_summary
      \<lparr>summary = [],
       messages = [\<lparr>role = User, content = ''a''\<rparr>, \<lparr>role = Assistant, content = ''b''\<rparr>,
                   \<lparr>role = User, content = ''c''\<rparr>]\<rparr>
      \<lparr>name = ''ollama'', model = ''llama3'', client = (\<lambda>_ _. Inr None)\<rparr> 2 1
      \<lparr>redis_lists = (\<lambda>_. []), redis_strings = (\<lambda>_. None), trace = []\<rparr>)
     = Inr \<lparr>summary = [], messages = [\<lparr>role = User, content = ''c''\<rparr>]\<rparr>
   \<and> fst (apply_rolling_summary
      \<lparr>summary = [],
       messages = [\<lparr>role = User, content = ''a''\<rparr>, \<lparr>role = Assistant, content = ''b''\<rparr>,
                   \<lparr>role = User, content = ''c''\<rparr>]\<rparr>
      \<lparr>name = ''ollama'', model = ''llama3'', client = (\<lambda>_ _. Inr (Some '' digest ''))\<rparr> 2 0
      \<lparr>redis_lists = (\<lambda>_. []), redis_strings = (\<lambda>_. None), trace = []\<rparr>)
     = Inr \<lparr>summary = [],
       messages = [\<lparr>role = User, content = ''a''\<rparr>, \<lparr>role = Assistant, content = ''b''\<rparr>,
                   \<lparr>role = User, content = ''c''\<rparr>]\<rparr>"
  by (simp add: apply_rolling_summary_def Let_def slice_upto_def slice_from_def
      summarize_def generate_def strip_def)

section \<open>Properties of the ask operation: the stateless path and the default provider\<close>

text \<open>
  C8.  Let the provider selector resolve to a backend.  With no session id (absent or
  empty) or with the memory mode \<open>none\<close>, the ask operation makes exactly one call,
  the backend's generate on the raw prompt; the store is neither read nor written; and
  the result carries the reply and the session id as it was given.
\<close>

theorem ask_stateless:
  assumes "get_provider s k prov = Inr (provider_name, llm)"
    and "sid = None \<or> sid = Some []
         \<or> or_str memory (or_str (Some (memory_strategy s)) ''rolling'') = ''none''"
  shows "ask s k prompt prov sid memory max_messages_arg keep_last_arg window_size_arg w
           = (case client llm (model llm) prompt of
                Inl e \<Rightarrow> Inl e
              | Inr response \<Rightarrow>
                  Inr \<lparr>provider = provider_name,
                       reply = (case response of None \<Rightarrow> [] | Some t \<Rightarrow> t),
                       session_id = sid\<rparr>,
              w\<lparr>trace := trace w @ [EvGenerate (name llm) prompt]\<rparr>)"
proof -
  consider (nosid) "or_str sid [] = []"
    | (none) "or_str memory (or_str (Some (memory_strategy s)) ''rolling'') = ''none''"
    using assms(2) by (auto simp: or_str_def)
  then show ?thesis
  proof cases
    case nosid
    then show ?thesis
      by (simp add: ask_def assms(1) Let_def generate_def log_event_def split: sum.splits)
  next
    case none
    then show ?thesis
      by (simp add: ask_def assms(1) Let_def generate_def log_event_def split: sum.splits)
  qed
qed

theorem ask_stateless_witness:
  "get_provider \<lparr>google_api_key = ''k'', default_provider = ''gemini'', gemini_model = ''gemini-2.0-flash'',
          ollama_host = ''http://localhost:11434'', ollama_model = ''llama3'',
          redis_url = ''redis://localhost:6379/0'', memory_strategy = ''rolling'',
          fetch_last_n = 10, max_tokens_before_summarize = 4000, max_messages = 10,
          keep_last = 4, window_size = 10\<rparr>
         \<lparr>genai_client = (\<lambda>_ _ _. Inr (Some ''g'')), ollama_client = (\<lambda>_ _ _. Inr (Some ''o''))\<rparr> ''ollama''
     = Inr (''ollama'', \<lparr>name = ''ollama'', model = ''llama3'', client = (\<lambda>_ _. Inr (Some ''o''))\<rparr>)
   \<and> ask \<lparr>google_api_key = ''k'', default_provider = ''gemini'', gemini_model = ''gemini-2.0-flash'',
          ollama_host = ''http://localhost:11434'', ollama_model = ''llama3'',
          redis_url = ''redis://localhost:6379/0'', memory_strategy = ''rolling'',
          fetch_last_n = 10, max_tokens_before_summarize = 4000, max_messages = 10,
          keep_last = 4, window_size = 10\<rparr>
         \<lparr>genai_client = (\<lambda>_ _ _. Inr (Some ''g'')), ollama_client = (\<lambda>_ _ _. Inr (Some ''o''))\<rparr>
         ''hi'' ''ollama'' None (Some ''window'') None None None
         \<lparr>redis_lists = (\<lambda>_. []), redis_strings = (\<lambda>_. None), trace = []\<rparr>
     = (Inr \<lparr>provider = ''ollama'', reply = ''o'', session_id = None\<rparr>,
        \<lparr>redis_lists = (\<lambda>_. []), redis_strings = (\<lambda>_. None),
         trace = [EvGenerate ''ollama'' ''hi'']\<rparr>)"
  using ask_stateless
    [where s = "\<lparr>google_api_key = ''k'', default_provider = ''gemini'', gemini_model = ''gemini-2.0-flash'',
          ollama_host = ''http://localhost:11434'', ollama_model = ''llama3'',
          redis_url = ''redis://localhost:6379/0'', memory_strategy = ''rolling'',
          fetch_last_n = 10, max_tokens_before_summarize = 4000, max_messages = 10,
          keep_last = 4, window_size = 10\<rparr>"
       and k = "\<lparr>genai_client = (\<lambda>_ _ _. Inr (Some ''g'')), ollama_client = (\<lambda>_ _ _. Inr (Some ''o''))\<rparr>"
       and prov = "''ollama''" and provider_name = "''ollama''"
       and llm = "\<lparr>name = ''ollama'', model = ''llama3'', client = (\<lambda>_ _. Inr (Some ''o''))\<rparr>"
       and sid = None and memory = "Some ''window''" and prompt = "''hi''"
       and max_messages_arg = None and keep_last_arg = None and window_size_arg = None
       and w = "\<lparr>redis_lists = (\<lambda>_. []), redis_strings = (\<lambda>_. None), trace = []\<rparr>"]
  by (simp add: get_provider_def ollama_provider_def strip_def lower_def lower_char_def
      is_space_def Let_def)

text \<open>
  C10.  The configured default provider is never read: changing it changes neither the
  provider resolution, nor the ask operation, nor the route.  A selector that is empty
  or made of whitespace only resolves as \<open>gemini\<close> does: to the Gemini backend when
  the API key is configured (and to the error of the missing key otherwise), whatever
  the configured default provider is.
\<close>

theorem ask_default_provider_irrelevant:
  "get_provider (s\<lparr>default_provider := d\<rparr>) k prov = get_provider s k prov
   \<and> ask (s\<lparr>default_provider := d\<rparr>) k prompt prov sid memory
        max_messages_arg keep_last_arg window_size_arg w
     = ask s k prompt prov sid memory max_messages_arg keep_last_arg window_size_arg w
   \<and> ask_ai (s\<lparr>default_provider := d\<rparr>) k prompt prov_q sid memory_q w
     = ask_ai s k prompt prov_q sid memory_q w
   \<and> ((\<forall>c \<in> set prov. is_space c) \<longrightarrow>
        get_provider (s\<lparr>default_provider := d\<rparr>) k prov = get_provider s k ''gemini''
        \<and> (google_api_key s \<noteq> [] \<longrightarrow>
             get_provider (s\<lparr>default_provider := d\<rparr>) k prov
               = Inr (''gemini'', \<lparr>name = ''gemini'', model = gemini_model s,
                                     client = genai_client k (google_api_key s)\<rparr>)))"
proof -
  have g: "get_provider (s\<lparr>default_provider := d\<rparr>) k prov = get_provider s k prov" for prov
    by (simp add: get_provider_def get_gemini_def ollama_provider_def Let_def)
  have a: "ask (s\<lparr>default_provider := d\<rparr>) k prompt prov sid memory
        max_messages_arg keep_last_arg window_size_arg w
     = ask s k prompt prov sid memory max_messages_arg keep_last_arg window_size_arg w"
    for prov memory max_messages_arg keep_last_arg window_size_arg
    by (simp add: ask_def g Let_def split: sum.splits prod.splits)
  have b: "ask_ai (s\<lparr>default_provider := d\<rparr>) k prompt prov_q sid memory_q w
     = ask_ai s k prompt prov_q sid memory_q w"
    by (simp add: ask_ai_def a)
  have c: "get_provider s k prov = get_provider s k ''gemini''
        \<and> (google_api_key s \<noteq> [] \<longrightarrow>
             get_provider s k prov
               = Inr (''gemini'', \<lparr>name = ''gemini'', model = gemini_model s,
                                     client = genai_client k (google_api_key s)\<rparr>))"
    if blank: "\<forall>c \<in> set prov. is_space c"
  proof -
    have "lower_char c = c" if "is_space c" for c
      using that by (auto simp: lower_char_def is_space_def Let_def)
    then have "lower prov = prov"
      using blank by (simp add: lower_def map_idI)
    then have "strip (lower prov) = []"
      using blank by (simp add: strip_Nil_iff)
    moreover have "strip (lower ''gemini'') = ''gemini''"
      by (simp add: strip_def lower_def lower_char_def is_space_def)
    ultimately show ?thesis
      by (simp add: get_provider_def get_gemini_def Let_def)
  qed
  show ?thesis unfolding g using a b c by blast
qed

theorem ask_default_provider_irrelevant_witness:
  "is_space (CHR '' '') \<and> is_space nl
   \<and> get_provider (\<lparr>google_api_key = ''k'', default_provider = ''gemini'', gemini_model = ''gemini-2.0-flash'',
          ollama_host = ''http://localhost:11434'', ollama_model = ''llama3'',
          redis_url = ''redis://localhost:6379/0'', memory_strategy = ''rolling'',
          fetch_last_n = 10, max_tokens_before_summarize = 4000, max_messages = 10,
          keep_last = 4, window_size = 10\<rparr>\<lparr>default_provider := ''ollama''\<rparr>)
         \<lparr>genai_client = (\<lambda>_ _ _. Inr (Some ''g'')), ollama_client = (\<lambda>_ _ _. Inr (Some ''o''))\<rparr> [CHR '' '', nl]
     = Inr (''gemini'', \<lparr>name = ''gemini'', model = ''gemini-2.0-flash'',
                          client = (\<lambda>_ _. Inr (Some ''g''))\<rparr>)"
  using ask_default_provider_irrelevant
    [where s = "\<lparr>google_api_key = ''k'', default_provider = ''gemini'', gemini_model = ''gemini-2.0-flash'',
          ollama_host = ''http://localhost:11434'', ollama_model = ''llama3'',
          redis_url = ''redis://localhost:6379/0'', memory_strategy = ''rolling'',
          fetch_last_n = 10, max_tokens_before_summarize = 4000, max_messages = 10,
          keep_last = 4, window_size = 10\<rparr>"
       and k = "\<lparr>genai_client = (\<lambda>_ _ _. Inr (Some ''g'')), ollama_client = (\<lambda>_ _ _. Inr (Some ''o''))\<rparr>"
       and d = "''ollama''" and prov = "[CHR '' '', nl]" and prompt = "''hi''"
       and sid = None and memory = None and max_messages_arg = None
       and keep_last_arg = None and window_size_arg = None
       and prov_q = None and memory_q = None
       and w = "\<lparr>redis_lists = (\<lambda>_. []), redis_strings = (\<lambda>_. None), trace = []\<rparr>"]
  by (simp add: is_space_def get_provider_def get_gemini_def Let_def strip_def lower_def
      lower_char_def)

section \<open>Properties of the ask operation: the stateful path\<close>

lemma upper_user: "upper ''user'' = ''USER''"
  and upper_assistant: "upper ''assistant'' = ''ASSISTANT''"
  by code_simp+

lemma trace_log_event [simp]: "trace (log_event e w) = trace w @ [e]"
  and redis_lists_log_event [simp]: "redis_lists (log_event e w) = redis_lists w"
  and redis_strings_log_event [simp]: "redis_strings (log_event e w) = redis_strings w"
  by (simp_all add: log_event_def)

lemma fold_rpush:
  "fold (rpush key) ms w = w\<lparr>redis_lists := (redis_lists w)(key := redis_lists w key @ ms)\<rparr>"
  by (induction ms arbitrary: w) (simp_all add: rpush_def)

lemma append_messages_eq:
  "append_messages i ms w =
     w\<lparr>redis_lists := (redis_lists w)(key_messages i := redis_lists w (key_messages i) @ ms),
       trace := trace w @ [EvAppendMessages i ms]\<rparr>"
  by (simp add: append_messages_def Let_def fold_rpush log_event_def)

lemma trim_messages_eq:
  "trim_messages i n w =
     w\<lparr>redis_lists := (redis_lists w)(key_messages i :=
           (if n \<le> 0 then [] else lrange (redis_lists w (key_messages i)) (- n) (- 1))),
       trace := trace w @ [EvTrimMessages i n]\<rparr>"
  by (simp add: trim_messages_def Let_def log_event_def)

lemma set_summary_eq:
  "set_summary i t w =
     w\<lparr>redis_strings := (redis_strings w)(key_summary i \<mapsto> t),
       trace := trace w @ [EvSetSummary i t]\<rparr>"
  by (simp add: set_summary_def Let_def log_event_def)

lemma generate_eq:
  "generate llm p w =
     (case client llm (model llm) p of
        Inl e \<Rightarrow> Inl e
      | Inr response \<Rightarrow> Inr (case response of None \<Rightarrow> [] | Some t \<Rightarrow> t),
      w\<lparr>trace := trace w @ [EvGenerate (name llm) p]\<rparr>)"
  by (simp add: generate_def Let_def log_event_def split: sum.splits)

lemma lrange_last:
  "0 < n \<Longrightarrow> lrange xs (- n) (- 1) = drop (length xs - nat n) xs"
  by (auto simp: lrange_def Let_def nat_diff_distrib' not_le)

lemma ask_rolling:
  assumes "get_provider s k prov = Inr (provider_name, llm)"
    and "sid = Some i" and "i \<noteq> []"
    and "or_str memory (or_str (Some (memory_strategy s)) ''rolling'') \<notin> {''window'', ''none''}"
  shows "ask s k prompt prov sid memory max_messages_arg keep_last_arg window_size_arg w =
     (let user_msg = \<lparr>role = User, content = prompt\<rparr>;
          session = \<lparr>summary = fst (get_summary i w),
                     messages = lrange (redis_lists w (key_messages i)) (- fetch_last_n s) (- 1)
                                @ [user_msg]\<rparr>;
          w2 = w\<lparr>trace := trace w @ [EvGetSummary i, EvGetLastMessages i (fetch_last_n s)]\<rparr>;
          keep_last_n = or_int keep_last_arg (keep_last s);
          max_msg = or_int max_messages_arg (max_messages s);
          bw = (if session_tokens session > max_tokens_before_summarize s then
                  (case apply_rolling_summary session llm max_msg keep_last_n w2 of
                     (Inl e, w3) \<Rightarrow> (Inl e, w3)
                   | (Inr session', w3) \<Rightarrow>
                       (Inr session',
                        trim_messages i keep_last_n (set_summary i (summary session') w3)))
                else (Inr session, w2))
      in case bw of
           (Inl e, w3) \<Rightarrow> (Inl e, w3)
         | (Inr session', w3) \<Rightarrow>
             (case generate llm (strip (transcript session') @ [nl, nl] @ ''ASSISTANT:'') w3 of
                (Inl e, w4) \<Rightarrow> (Inl e, w4)
              | (Inr text, w4) \<Rightarrow>
                  (Inr \<lparr>provider = provider_name, reply = strip text, session_id = sid\<rparr>,
                   append_messages i [user_msg, \<lparr>role = Assistant, content = strip text\<rparr>] w4)))"
proof -
  have sid: "or_str sid [] = i" using assms(2,3) by (simp add: or_str_def)
  show ?thesis
  proof (cases "or_str memory (or_str (Some (memory_strategy s)) ''rolling'') = ''rolling''")
    case True
    then show ?thesis
      using assms(3)
      by (simp add: ask_def assms(1) sid Let_def get_summary_def get_last_messages_def
          log_event_def split: prod.splits sum.splits)
  next
    case False
    then show ?thesis
      using assms(3,4)
      by (simp add: ask_def assms(1) sid Let_def get_summary_def get_last_messages_def
          log_event_def split: prod.splits sum.splits)
  qed
qed

lemma ask_window:
  assumes "get_provider s k prov = Inr (provider_name, llm)"
    and "sid = Some i" and "i \<noteq> []"
    and "or_str memory (or_str (Some (memory_strategy s)) ''rolling'') = ''window''"
  shows "ask s k prompt prov sid memory max_messages_arg keep_last_arg window_size_arg w =
     (let user_msg = \<lparr>role = User, content = prompt\<rparr>;
          session = \<lparr>summary = fst (get_summary i w),
                     messages = lrange (redis_lists w (key_messages i)) (- fetch_last_n s) (- 1)
                                @ [user_msg]\<rparr>;
          w2 = w\<lparr>trace := trace w @ [EvGetSummary i, EvGetLastMessages i (fetch_last_n s)]\<rparr>;
          win_size = or_int window_size_arg (window_size s)
      in case generate llm
                (strip (transcript (apply_sliding_window session win_size)) @ [nl, nl]
                 @ ''ASSISTANT:'') w2 of
           (Inl e, w4) \<Rightarrow> (Inl e, w4)
         | (Inr text, w4) \<Rightarrow>
             (Inr \<lparr>provider = provider_name, reply = strip text, session_id = sid\<rparr>,
              trim_messages i win_size
                (append_messages i [user_msg, \<lparr>role = Assistant, content = strip text\<rparr>] w4)))"
proof -
  have sid: "or_str sid [] = i" using assms(2,3) by (simp add: or_str_def)
  show ?thesis
    using assms(3)
    by (simp add: ask_def assms(1,4) sid Let_def get_summary_def get_last_messages_def
        log_event_def split: prod.splits sum.splits)
qed

lemma apply_rolling_summary_store:
  assumes "apply_rolling_summary session llm max_msgs keep w = (r, w')"
  shows "redis_lists w' = redis_lists w \<and> redis_strings w' = redis_strings w"
  using assms
  by (auto simp: apply_rolling_summary_def Let_def summarize_def generate_eq
      split: if_splits sum.splits)

text \<open>
  C3.  Let the provider resolve, let a session id be given and let the memory mode be
  rolling (every mode other than \<open>window\<close> and \<open>none\<close>).  The session is the stored
  summary and the fetched messages followed by the new user message.  If its estimated
  length exceeds the threshold, the rolling summary runs on it with the effective
  \<open>max_messages\<close> and \<open>keep_last\<close>; it leaves the store as it was.  When it fails,
  the request fails with it.  Otherwise \<open>set_summary\<close> overwrites the stored summary
  with the session's summary, \<open>trim_messages\<close> cuts the stored log to its last
  effective \<open>keep_last\<close> entries (to nothing when that is at most 0), and the
  request goes on from that store: the generate call and, when it answers, the append
  of the new pair to the trimmed log.  If the estimate does not exceed the threshold,
  the request goes on from the store as it was read: no summarize, no
  \<open>set_summary\<close>, no \<open>trim_messages\<close>; the stored summary and the stored log are
  untouched until the new pair is appended.
\<close>

theorem ask_rolling_threshold:
  assumes "get_provider s k prov = Inr (provider_name, llm)"
    and "sid = Some i" and "i \<noteq> []"
    and "or_str memory (or_str (Some (memory_strategy s)) ''rolling'') \<notin> {''window'', ''none''}"
  shows
    "(let user_msg = \<lparr>role = User, content = prompt\<rparr>;
          stored = redis_lists w (key_messages i);
          session = \<lparr>summary = fst (get_summary i w),
                     messages = fst (get_last_messages i (fetch_last_n s) w) @ [user_msg]\<rparr>;
          w2 = w\<lparr>trace := trace w @ [EvGetSummary i, EvGetLastMessages i (fetch_last_n s)]\<rparr>;
          keep_last_n = or_int keep_last_arg (keep_last s);
          max_msg = or_int max_messages_arg (max_messages s);
          res = ask s k prompt prov sid memory max_messages_arg keep_last_arg window_size_arg w;
          finish = (\<lambda>session' wa.
             let compiled = strip (transcript session') @ [nl, nl] @ ''ASSISTANT:'';
                 wg = wa\<lparr>trace := trace wa @ [EvGenerate (name llm) compiled]\<rparr>
             in case client llm (model llm) compiled of
                  Inl e \<Rightarrow> (Inl e, wg)
                | Inr response \<Rightarrow>
                    let text = strip (case response of None \<Rightarrow> [] | Some t \<Rightarrow> t);
                        pair = [user_msg, \<lparr>role = Assistant, content = text\<rparr>]
                    in (Inr \<lparr>provider = provider_name, reply = text, session_id = sid\<rparr>,
                        wg\<lparr>redis_lists := (redis_lists wg)
                              (key_messages i := redis_lists wg (key_messages i) @ pair),
                           trace := trace wg @ [EvAppendMessages i pair]\<rparr>))
      in (session_tokens session > max_tokens_before_summarize s \<longrightarrow>
           (case apply_rolling_summary session llm max_msg keep_last_n w2 of
              (Inl e, w3) \<Rightarrow>
                res = (Inl e, w3)
                \<and> redis_lists w3 = redis_lists w \<and> redis_strings w3 = redis_strings w
            | (Inr session', w3) \<Rightarrow>
                res = finish session'
                  (w3\<lparr>redis_strings := (redis_strings w)(key_summary i \<mapsto> summary session'),
                      redis_lists := (redis_lists w)
                        (key_messages i :=
                           (if keep_last_n \<le> 0 then []
                            else lrange stored (- keep_last_n) (- 1))),
                      trace := trace w3 @ [EvSetSummary i (summary session'),
                                           EvTrimMessages i keep_last_n]\<rparr>)))
       \<and> (\<not> session_tokens session > max_tokens_before_summarize s \<longrightarrow>
            res = finish session w2))"
proof -
  let ?u = "\<lparr>role = User, content = prompt\<rparr>"
  let ?sess = "\<lparr>summary = fst (get_summary i w),
               messages = lrange (redis_lists w (key_messages i)) (- fetch_last_n s) (- 1) @ [?u]\<rparr>"
  let ?w2 = "w\<lparr>trace := trace w @ [EvGetSummary i, EvGetLastMessages i (fetch_last_n s)]\<rparr>"
  obtain r w3 where rw: "apply_rolling_summary ?sess llm (or_int max_messages_arg (max_messages s))
      (or_int keep_last_arg (keep_last s)) ?w2 = (r, w3)"
    by (cases "apply_rolling_summary ?sess llm (or_int max_messages_arg (max_messages s))
      (or_int keep_last_arg (keep_last s)) ?w2") 
  have frame: "redis_lists w3 = redis_lists w" "redis_strings w3 = redis_strings w"
    using apply_rolling_summary_store [OF rw] by simp_all
  show ?thesis
    unfolding ask_rolling [OF assms(1-4)]
    by (cases r)
      (simp_all add: Let_def get_last_messages_def rw frame
        generate_eq append_messages_eq trim_messages_eq set_summary_eq
        split: sum.splits)
qed

theorem ask_rolling_threshold_witness:
  "fst (ask \<lparr>google_api_key = ''k'', default_provider = ''gemini'',
      gemini_model = ''gemini-2.0-flash'', ollama_host = ''http://localhost:11434'',
      ollama_model = ''llama3'', redis_url = ''redis://localhost:6379/0'',
      memory_strategy = ''rolling'', fetch_last_n = 10,
      max_tokens_before_summarize = 1, max_messages = 2,
      keep_last = 1, window_size = 10\<rparr>
      \<lparr>genai_client = (\<lambda>_ _ _. Inr (Some ''g'')),
      ollama_client = (\<lambda>_ _ _. Inr (Some ''o''))\<rparr>
      ''hi'' ''ollama'' (Some ''s1'') None None None None
      \<lparr>redis_lists = (\<lambda>_. [])(key_messages ''s1'' :=
        [\<lparr>role = User, content = ''m1''\<rparr>,
         \<lparr>role = Assistant, content = ''m2''\<rparr>]),
      redis_strings = (\<lambda>_. None), trace = []\<rparr>)
     = Inr \<lparr>provider = ''ollama'', reply = ''o'', session_id = Some ''s1''\<rparr>
   \<and> redis_lists (snd (ask \<lparr>google_api_key = ''k'', default_provider = ''gemini'',
      gemini_model = ''gemini-2.0-flash'', ollama_host = ''http://localhost:11434'',
      ollama_model = ''llama3'', redis_url = ''redis://localhost:6379/0'',
      memory_strategy = ''rolling'', fetch_last_n = 10,
      max_tokens_before_summarize = 1, max_messages = 2,
      keep_last = 1, window_size = 10\<rparr>
      \<lparr>genai_client = (\<lambda>_ _ _. Inr (Some ''g'')),
      ollama_client = (\<lambda>_ _ _. Inr (Some ''o''))\<rparr>
      ''hi'' ''ollama'' (Some ''s1'') None None None None
      \<lparr>redis_lists = (\<lambda>_. [])(key_messages ''s1'' :=
        [\<lparr>role = User, content = ''m1''\<rparr>,
         \<lparr>role = Assistant, content = ''m2''\<rparr>]),
      redis_strings = (\<lambda>_. None), trace = []\<rparr>)) (key_messages ''s1'')
     = [\<lparr>role = Assistant, content = ''m2''\<rparr>, \<lparr>role = User, content = ''hi''\<rparr>, \<lparr>role = Assistant, content = ''o''\<rparr>]
   \<and> redis_strings (snd (ask \<lparr>google_api_key = ''k'', default_provider = ''gemini'',
      gemini_model = ''gemini-2.0-flash'', ollama_host = ''http://localhost:11434'',
      ollama_model = ''llama3'', redis_url = ''redis://localhost:6379/0'',
      memory_strategy = ''rolling'', fetch_last_n = 10,
      max_tokens_before_summarize = 1, max_messages = 2,
      keep_last = 1, window_size = 10\<rparr>
      \<lparr>genai_client = (\<lambda>_ _ _. Inr (Some ''g'')),
      ollama_client = (\<lambda>_ _ _. Inr (Some ''o''))\<rparr>
      ''hi'' ''ollama'' (Some ''s1'') None None None None
      \<lparr>redis_lists = (\<lambda>_. [])(key_messages ''s1'' :=
        [\<lparr>role = User, content = ''m1''\<rparr>,
         \<lparr>role = Assistant, content = ''m2''\<rparr>]),
      redis_strings = (\<lambda>_. None), trace = []\<rparr>)) (key_summary ''s1'') = Some ''o''
   \<and> trace (snd (ask \<lparr>google_api_key = ''k'', default_provider = ''gemini'',
      gemini_model = ''gemini-2.0-flash'', ollama_host = ''http://localhost:11434'',
      ollama_model = ''llama3'', redis_url = ''redis://localhost:6379/0'',
      memory_strategy = ''rolling'', fetch_last_n = 10,
      max_tokens_before_summarize = 1, max_messages = 2,
      keep_last = 1, window_size = 10\<rparr>
      \<lparr>genai_client = (\<lambda>_ _ _. Inr (Some ''g'')),
      ollama_client = (\<lambda>_ _ _. Inr (Some ''o''))\<rparr>
      ''hi'' ''ollama'' (Some ''s1'') None None None None
      \<lparr>redis_lists = (\<lambda>_. [])(key_messages ''s1'' :=
        [\<lparr>role = User, content = ''m1''\<rparr>,
         \<lparr>role = Assistant, content = ''m2''\<rparr>]),
      redis_strings = (\<lambda>_. None), trace = []\<rparr>))
     = [EvGetSummary ''s1'', EvGetLastMessages ''s1'' 10,
        EvSummarize ''ollama''
          (join [nl] (map render [\<lparr>role = User, content = ''m1''\<rparr>,
         \<lparr>role = Assistant, content = ''m2''\<rparr>])),
        EvGenerate ''ollama''
          (summarize_prompt (join [nl] (map render [\<lparr>role = User, content = ''m1''\<rparr>,
         \<lparr>role = Assistant, content = ''m2''\<rparr>]))),
        EvSetSummary ''s1'' ''o'', EvTrimMessages ''s1'' 1,
        EvGenerate ''ollama''
          (strip (transcript \<lparr>summary = ''o'', messages = [\<lparr>role = User, content = ''hi''\<rparr>]\<rparr>)
           @ [nl, nl] @ ''ASSISTANT:''),
        EvAppendMessages ''s1'' [\<lparr>role = User, content = ''hi''\<rparr>, \<lparr>role = Assistant, content = ''o''\<rparr>]]"
  using ask_rolling_threshold
    [where s = "\<lparr>google_api_key = ''k'', default_provider = ''gemini'',
      gemini_model = ''gemini-2.0-flash'', ollama_host = ''http://localhost:11434'',
      ollama_model = ''llama3'', redis_url = ''redis://localhost:6379/0'',
      memory_strategy = ''rolling'', fetch_last_n = 10,
      max_tokens_before_summarize = 1, max_messages = 2,
      keep_last = 1, window_size = 10\<rparr>"
       and k = "\<lparr>genai_client = (\<lambda>_ _ _. Inr (Some ''g'')),
      ollama_client = (\<lambda>_ _ _. Inr (Some ''o''))\<rparr>"
       and prov = "''ollama''" and provider_name = "''ollama''"
       and llm = "\<lparr>name = ''ollama'', model = ''llama3'', client = (\<lambda>_ _. Inr (Some ''o''))\<rparr>"
       and sid = "Some ''s1''" and i = "''s1''" and memory = None
       and prompt = "''hi''"
       and max_messages_arg = None and keep_last_arg = None and window_size_arg = None
       and w = "\<lparr>redis_lists = (\<lambda>_. [])(key_messages ''s1'' :=
        [\<lparr>role = User, content = ''m1''\<rparr>,
         \<lparr>role = Assistant, content = ''m2''\<rparr>]),
      redis_strings = (\<lambda>_. None), trace = []\<rparr>"]
  by (simp add: get_provider_def ollama_provider_def lower_def lower_char_def or_str_def
      Let_def or_int_def get_summary_def get_last_messages_def lrange_def
      session_tokens_def estimate_tokens_def transcript_def render_def upper_user
      upper_assistant strip_def is_space_def apply_rolling_summary_def slice_upto_def
      slice_from_def summarize_def generate_eq log_event_def)

lemma sliding_window_keeps_summary:
  "summary (apply_sliding_window session win) = summary session"
  by (simp add: apply_sliding_window_def)

lemma window_of_fetched:
  assumes "length xs = 12" and "5 \<le> n"
  shows "messages (apply_sliding_window
           \<lparr>summary = t, messages = lrange xs (- n) (- 1) @ [u]\<rparr> 5) = drop 8 xs @ [u]"
proof -
  define j where "j = 12 - nat n"
  have j: "j \<le> 7" using assms(2) by (simp add: j_def)
  have fetched: "lrange xs (- n) (- 1) = drop j xs"
    using assms by (simp add: lrange_last j_def)
  have len: "length (drop j xs) = 12 - j"
    using assms by simp
  have "drop (8 - j) (drop j xs) = drop 8 xs"
    using j by simp
  moreover have "length (drop j xs @ [u]) - 5 = 8 - j"
    using j len by simp
  moreover have "8 - j \<le> length (drop j xs)"
    using j len by simp
  ultimately have "drop (length (drop j xs @ [u]) - 5) (drop j xs @ [u]) = drop 8 xs @ [u]"
    by simp
  moreover have "5 < int (length (drop j xs @ [u]))"
    using j len by simp
  ultimately show ?thesis
    unfolding fetched
    by (simp add: apply_sliding_window_def slice_from_def Let_def max_def nat_diff_distrib'
        del: length_drop length_append drop_append)
qed

text \<open>
  C5, as the code has it.  Window mode, a session id whose log holds 12 messages,
  effective window size 5, at least 5 messages fetched, and a backend that answers.
  The window is cut after the new user message has been added to the session, so the
  transcript sent to the backend holds 5 messages: the 4 most recent stored messages
  and the new user message.  The user and assistant messages are appended to the log
  and the log is then trimmed to 5: the 3 most recent prior messages and the new pair.
\<close>

theorem ask_window_scenario:
  assumes "get_provider s k prov = Inr (provider_name, llm)"
    and "sid = Some i" and "i \<noteq> []"
    and "or_str memory (or_str (Some (memory_strategy s)) ''rolling'') = ''window''"
    and "or_int window_size_arg (window_size s) = 5" and "5 \<le> fetch_last_n s"
    and "length (redis_lists w (key_messages i)) = 12"
    and "client llm (model llm)
           (strip (transcript \<lparr>summary = fst (get_summary i w),
                                 messages = drop 8 (redis_lists w (key_messages i))
                                            @ [\<lparr>role = User, content = prompt\<rparr>]\<rparr>)
            @ [nl, nl] @ ''ASSISTANT:'') = Inr response"
  shows "ask s k prompt prov sid memory max_messages_arg keep_last_arg window_size_arg w =
     (let user_msg = \<lparr>role = User, content = prompt\<rparr>;
          text = strip (case response of None \<Rightarrow> [] | Some t \<Rightarrow> t);
          assistant_msg = \<lparr>role = Assistant, content = text\<rparr>;
          stored = redis_lists w (key_messages i)
      in (Inr \<lparr>provider = provider_name, reply = text, session_id = sid\<rparr>,
          w\<lparr>redis_lists := (redis_lists w)
                   (key_messages i := drop 9 stored @ [user_msg, assistant_msg]),
            trace := trace w
              @ [EvGetSummary i, EvGetLastMessages i (fetch_last_n s),
                 EvGenerate (name llm)
                   (strip (transcript \<lparr>summary = fst (get_summary i w),
                                         messages = drop 8 stored @ [user_msg]\<rparr>)
                    @ [nl, nl] @ ''ASSISTANT:''),
                 EvAppendMessages i [user_msg, assistant_msg],
                 EvTrimMessages i 5]\<rparr>))
     \<and> length (drop 9 (redis_lists w (key_messages i))) = 3"
proof -
  let ?u = "\<lparr>role = User, content = prompt\<rparr>"
  let ?sess = "\<lparr>summary = fst (get_summary i w),
               messages = lrange (redis_lists w (key_messages i)) (- fetch_last_n s) (- 1) @ [?u]\<rparr>"
  have win: "apply_sliding_window ?sess 5
      = \<lparr>summary = fst (get_summary i w), messages = drop 8 (redis_lists w (key_messages i)) @ [?u]\<rparr>"
    using window_of_fetched [OF assms(7,6), of "fst (get_summary i w)" ?u]
      sliding_window_keeps_summary [of ?sess 5]
    by (cases "apply_sliding_window ?sess 5") simp
  show ?thesis
    unfolding ask_window [OF assms(1-4)]
    using assms(7,8)
    by (simp add: Let_def assms(5) win generate_eq append_messages_eq trim_messages_eq
        lrange_last)
qed

theorem ask_window_scenario_witness:
  "length [\<lparr>role = User, content = ''m1''\<rparr>,
         \<lparr>role = Assistant, content = ''m2''\<rparr>,
         \<lparr>role = User, content = ''m3''\<rparr>,
         \<lparr>role = Assistant, content = ''m4''\<rparr>,
         \<lparr>role = User, content = ''m5''\<rparr>,
         \<lparr>role = Assistant, content = ''m6''\<rparr>,
         \<lparr>role = User, content = ''m7''\<rparr>,
         \<lparr>role = Assistant, content = ''m8''\<rparr>,
         \<lparr>role = User, content = ''m9''\<rparr>,
         \<lparr>role = Assistant, content = ''m10''\<rparr>,
         \<lparr>role = User, content = ''m11''\<rparr>,
         \<lparr>role = Assistant, content = ''m12''\<rparr>] = 12
   \<and> fst (ask \<lparr>google_api_key = ''k'', default_provider = ''gemini'',
      gemini_model = ''gemini-2.0-flash'', ollama_host = ''http://localhost:11434'',
      ollama_model = ''llama3'', redis_url = ''redis://localhost:6379/0'',
      memory_strategy = ''rolling'', fetch_last_n = 10,
      max_tokens_before_summarize = 4000, max_messages = 10,
      keep_last = 4, window_size = 5\<rparr>
      \<lparr>genai_client = (\<lambda>_ _ _. Inr (Some ''g'')),
      ollama_client = (\<lambda>_ _ _. Inr (Some ''o''))\<rparr>
      ''hi'' ''ollama'' (Some ''s1'') (Some ''window'') None None None
      \<lparr>redis_lists = (\<lambda>_. [])(key_messages ''s1'' :=
        [\<lparr>role = User, content = ''m1''\<rparr>,
         \<lparr>role = Assistant, content = ''m2''\<rparr>,
         \<lparr>role = User, content = ''m3''\<rparr>,
         \<lparr>role = Assistant, content = ''m4''\<rparr>,
         \<lparr>role = User, content = ''m5''\<rparr>,
         \<lparr>role = Assistant, content = ''m6''\<rparr>,
         \<lparr>role = User, content = ''m7''\<rparr>,
         \<lparr>role = Assistant, content = ''m8''\<rparr>,
         \<lparr>role = User, content = ''m9''\<rparr>,
         \<lparr>role = Assistant, content = ''m10''\<rparr>,
         \<lparr>role = User, content = ''m11''\<rparr>,
         \<lparr>role = Assistant, content = ''m12''\<rparr>]),
      redis_strings = (\<lambda>_. None), trace = []\<rparr>)
     = Inr \<lparr>provider = ''ollama'', reply = ''o'', session_id = Some ''s1''\<rparr>
   \<and> redis_lists (snd (ask \<lparr>google_api_key = ''k'', default_provider = ''gemini'',
      gemini_model = ''gemini-2.0-flash'', ollama_host = ''http://localhost:11434'',
      ollama_model = ''llama3'', redis_url = ''redis://localhost:6379/0'',
      memory_strategy = ''rolling'', fetch_last_n = 10,
      max_tokens_before_summarize = 4000, max_messages = 10,
      keep_last = 4, window_size = 5\<rparr>
      \<lparr>genai_client = (\<lambda>_ _ _. Inr (Some ''g'')),
      ollama_client = (\<lambda>_ _ _. Inr (Some ''o''))\<rparr>
      ''hi'' ''ollama'' (Some ''s1'') (Some ''window'') None None None
      \<lparr>redis_lists = (\<lambda>_. [])(key_messages ''s1'' :=
        [\<lparr>role = User, content = ''m1''\<rparr>,
         \<lparr>role = Assistant, content = ''m2''\<rparr>,
         \<lparr>role = User, content = ''m3''\<rparr>,
         \<lparr>role = Assistant, content = ''m4''\<rparr>,
         \<lparr>role = User, content = ''m5''\<rparr>,
         \<lparr>role = Assistant, content = ''m6''\<rparr>,
         \<lparr>role = User, content = ''m7''\<rparr>,
         \<lparr>role = Assistant, content = ''m8''\<rparr>,
         \<lparr>role = User, content = ''m9''\<rparr>,
         \<lparr>role = Assistant, content = ''m10''\<rparr>,
         \<lparr>role = User, content = ''m11''\<rparr>,
         \<lparr>role = Assistant, content = ''m12''\<rparr>]),
      redis_strings = (\<lambda>_. None), trace = []\<rparr>)) (key_messages ''s1'')
     = [\<lparr>role = Assistant, content = ''m10''\<rparr>,
         \<lparr>role = User, content = ''m11''\<rparr>,
         \<lparr>role = Assistant, content = ''m12''\<rparr>,
         \<lparr>role = User, content = ''hi''\<rparr>,
         \<lparr>role = Assistant, content = ''o''\<rparr>]"
  using ask_window_scenario
    [where s = "\<lparr>google_api_key = ''k'', default_provider = ''gemini'',
      gemini_model = ''gemini-2.0-flash'', ollama_host = ''http://localhost:11434'',
      ollama_model = ''llama3'', redis_url = ''redis://localhost:6379/0'',
      memory_strategy = ''rolling'', fetch_last_n = 10,
      max_tokens_before_summarize = 4000, max_messages = 10,
      keep_last = 4, window_size = 5\<rparr>"
       and k = "\<lparr>genai_client = (\<lambda>_ _ _. Inr (Some ''g'')),
      ollama_client = (\<lambda>_ _ _. Inr (Some ''o''))\<rparr>"
       and prov = "''ollama''" and provider_name = "''ollama''"
       and llm = "\<lparr>name = ''ollama'', model = ''llama3'', client = (\<lambda>_ _. Inr (Some ''o''))\<rparr>"
       and sid = "Some ''s1''" and i = "''s1''" and memory = "Some ''window''"
       and prompt = "''hi''" and response = "Some ''o''"
       and max_messages_arg = None and keep_last_arg = None and window_size_arg = None
       and w = "\<lparr>redis_lists = (\<lambda>_. [])(key_messages ''s1'' :=
        [\<lparr>role = User, content = ''m1''\<rparr>,
         \<lparr>role = Assistant, content = ''m2''\<rparr>,
         \<lparr>role = User, content = ''m3''\<rparr>,
         \<lparr>role = Assistant, content = ''m4''\<rparr>,
         \<lparr>role = User, content = ''m5''\<rparr>,
         \<lparr>role = Assistant, content = ''m6''\<rparr>,
         \<lparr>role = User, content = ''m7''\<rparr>,
         \<lparr>role = Assistant, content = ''m8''\<rparr>,
         \<lparr>role = User, content = ''m9''\<rparr>,
         \<lparr>role = Assistant, content = ''m10''\<rparr>,
         \<lparr>role = User, content = ''m11''\<rparr>,
         \<lparr>role = Assistant, content = ''m12''\<rparr>]),
      redis_strings = (\<lambda>_. None), trace = []\<rparr>"]
  by (simp add: get_provider_def ollama_provider_def strip_def lower_def lower_char_def
      is_space_def Let_def or_str_def or_int_def)

text \<open>
  C5 as stated fails: with stored messages \<open>m1\<close> to \<open>m12\<close> the prompt sent to the
  backend lists \<open>m9\<close> to \<open>m12\<close> and the new user message, and no generate call
  is made on the 5-message window \<open>m8\<close> to \<open>m12\<close> plus the new user message.
\<close>

theorem ask_window_scenario_counterexample:
  "EvGenerate ''ollama''
     (strip (transcript \<lparr>summary = [], messages =
        [\<lparr>role = User, content = ''m9''\<rparr>,
         \<lparr>role = Assistant, content = ''m10''\<rparr>,
         \<lparr>role = User, content = ''m11''\<rparr>,
         \<lparr>role = Assistant, content = ''m12''\<rparr>,
         \<lparr>role = User, content = ''hi''\<rparr>]\<rparr>)
      @ [nl, nl] @ ''ASSISTANT:'')
     \<in> set (trace (snd (ask \<lparr>google_api_key = ''k'', default_provider = ''gemini'',
      gemini_model = ''gemini-2.0-flash'', ollama_host = ''http://localhost:11434'',
      ollama_model = ''llama3'', redis_url = ''redis://localhost:6379/0'',
      memory_strategy = ''rolling'', fetch_last_n = 10,
      max_tokens_before_summarize = 4000, max_messages = 10,
      keep_last = 4, window_size = 5\<rparr>
      \<lparr>genai_client = (\<lambda>_ _ _. Inr (Some ''g'')),
      ollama_client = (\<lambda>_ _ _. Inr (Some ''o''))\<rparr>
      ''hi'' ''ollama'' (Some ''s1'') (Some ''window'') None None None
      \<lparr>redis_lists = (\<lambda>_. [])(key_messages ''s1'' :=
        [\<lparr>role = User, content = ''m1''\<rparr>,
         \<lparr>role = Assistant, content = ''m2''\<rparr>,
         \<lparr>role = User, content = ''m3''\<rparr>,
         \<lparr>role = Assistant, content = ''m4''\<rparr>,
         \<lparr>role = User, content = ''m5''\<rparr>,
         \<lparr>role = Assistant, content = ''m6''\<rparr>,
         \<lparr>role = User, content = ''m7''\<rparr>,
         \<lparr>role = Assistant, content = ''m8''\<rparr>,
         \<lparr>role = User, content = ''m9''\<rparr>,
         \<lparr>role = Assistant, content = ''m10''\<rparr>,
         \<lparr>role = User, content = ''m11''\<rparr>,
         \<lparr>role = Assistant, content = ''m12''\<rparr>]),
      redis_strings = (\<lambda>_. None), trace = []\<rparr>)))
   \<and> EvGenerate ''ollama''
     (strip (transcript \<lparr>summary = [], messages =
        [\<lparr>role = Assistant, content = ''m8''\<rparr>,
         \<lparr>role = User, content = ''m9''\<rparr>,
         \<lparr>role = Assistant, content = ''m10''\<rparr>,
         \<lparr>role = User, content = ''m11''\<rparr>,
         \<lparr>role = Assistant, content = ''m12''\<rparr>,
         \<lparr>role = User, content = ''hi''\<rparr>]\<rparr>)
      @ [nl, nl] @ ''ASSISTANT:'')
     \<notin> set (trace (snd (ask \<lparr>google_api_key = ''k'', default_provider = ''gemini'',
      gemini_model = ''gemini-2.0-flash'', ollama_host = ''http://localhost:11434'',
      ollama_model = ''llama3'', redis_url = ''redis://localhost:6379/0'',
      memory_strategy = ''rolling'', fetch_last_n = 10,
      max_tokens_before_summarize = 4000, max_messages = 10,
      keep_last = 4, window_size = 5\<rparr>
      \<lparr>genai_client = (\<lambda>_ _ _. Inr (Some ''g'')),
      ollama_client = (\<lambda>_ _ _. Inr (Some ''o''))\<rparr>
      ''hi'' ''ollama'' (Some ''s1'') (Some ''window'') None None None
      \<lparr>redis_lists = (\<lambda>_. [])(key_messages ''s1'' :=
        [\<lparr>role = User, content = ''m1''\<rparr>,
         \<lparr>role = Assistant, content = ''m2''\<rparr>,
         \<lparr>role = User, content = ''m3''\<rparr>,
         \<lparr>role = Assistant, content = ''m4''\<rparr>,
         \<lparr>role = User, content = ''m5''\<rparr>,
         \<lparr>role = Assistant, content = ''m6''\<rparr>,
         \<lparr>role = User, content = ''m7''\<rparr>,
         \<lparr>role = Assistant, content = ''m8''\<rparr>,
         \<lparr>role = User, content = ''m9''\<rparr>,
         \<lparr>role = Assistant, content = ''m10''\<rparr>,
         \<lparr>role = User, content = ''m11''\<rparr>,
         \<lparr>role = Assistant, content = ''m12''\<rparr>]),
      redis_strings = (\<lambda>_. None), trace = []\<rparr>)))"
  using ask_window
    [where s = "\<lparr>google_api_key = ''k'', default_provider = ''gemini'',
      gemini_model = ''gemini-2.0-flash'', ollama_host = ''http://localhost:11434'',
      ollama_model = ''llama3'', redis_url = ''redis://localhost:6379/0'',
      memory_strategy = ''rolling'', fetch_last_n = 10,
      max_tokens_before_summarize = 4000, max_messages = 10,
      keep_last = 4, window_size = 5\<rparr>"
       and k = "\<lparr>genai_client = (\<lambda>_ _ _. Inr (Some ''g'')),
      ollama_client = (\<lambda>_ _ _. Inr (Some ''o''))\<rparr>"
       and prov = "''ollama''" and provider_name = "''ollama''"
       and llm = "\<lparr>name = ''ollama'', model = ''llama3'', client = (\<lambda>_ _. Inr (Some ''o''))\<rparr>"
       and sid = "Some ''s1''" and i = "''s1''" and memory = "Some ''window''"
       and prompt = "''hi''"
       and max_messages_arg = None and keep_last_arg = None and window_size_arg = None
       and w = "\<lparr>redis_lists = (\<lambda>_. [])(key_messages ''s1'' :=
        [\<lparr>role = User, content = ''m1''\<rparr>,
         \<lparr>role = Assistant, content = ''m2''\<rparr>,
         \<lparr>role = User, content = ''m3''\<rparr>,
         \<lparr>role = Assistant, content = ''m4''\<rparr>,
         \<lparr>role = User, content = ''m5''\<rparr>,
         \<lparr>role = Assistant, content = ''m6''\<rparr>,
         \<lparr>role = User, content = ''m7''\<rparr>,
         \<lparr>role = Assistant, content = ''m8''\<rparr>,
         \<lparr>role = User, content = ''m9''\<rparr>,
         \<lparr>role = Assistant, content = ''m10''\<rparr>,
         \<lparr>role = User, content = ''m11''\<rparr>,
         \<lparr>role = Assistant, content = ''m12''\<rparr>]),
      redis_strings = (\<lambda>_. None), trace = []\<rparr>"]
  by (simp add: get_provider_def ollama_provider_def lower_def lower_char_def or_str_def
      Let_def or_int_def get_summary_def lrange_def apply_sliding_window_def
      slice_from_def generate_eq append_messages_eq trim_messages_eq transcript_def
      render_def upper_user upper_assistant strip_def is_space_def)

lemma or_int_zero: "or_int (Some 0) d = or_int None d"
  by (simp add: or_int_def)

lemma ask_zero_overrides:
  "ask s k prompt prov sid memory (Some 0) (Some 0) (Some 0) w
     = ask s k prompt prov sid memory None None None w"
  unfolding ask_def or_int_zero by (rule refl)

text \<open>
  C4 fails on the code.  The effective values are computed with Python's \<open>or\<close>,
  so an override of 0 is replaced by the configured default.  Window mode with the
  override \<open>window_size = 0\<close> and the configured window size 10: the log of 12
  messages plus the new pair is trimmed to 10 messages, not emptied.
\<close>

theorem ask_zero_window_override:
  "or_int (Some 0) 10 = 10
   \<and> last (trace (snd (ask \<lparr>google_api_key = ''k'', default_provider = ''gemini'',
      gemini_model = ''gemini-2.0-flash'', ollama_host = ''http://localhost:11434'',
      ollama_model = ''llama3'', redis_url = ''redis://localhost:6379/0'',
      memory_strategy = ''rolling'', fetch_last_n = 10,
      max_tokens_before_summarize = 4000, max_messages = 10,
      keep_last = 4, window_size = 10\<rparr>
      \<lparr>genai_client = (\<lambda>_ _ _. Inr (Some ''g'')),
      ollama_client = (\<lambda>_ _ _. Inr (Some ''o''))\<rparr>
      ''hi'' ''ollama'' (Some ''s1'') (Some ''window'') None None (Some 0)
      \<lparr>redis_lists = (\<lambda>_. [])(key_messages ''s1'' :=
        [\<lparr>role = User, content = ''m1''\<rparr>,
         \<lparr>role = Assistant, content = ''m2''\<rparr>,
         \<lparr>role = User, content = ''m3''\<rparr>,
         \<lparr>role = Assistant, content = ''m4''\<rparr>,
         \<lparr>role = User, content = ''m5''\<rparr>,
         \<lparr>role = Assistant, content = ''m6''\<rparr>,
         \<lparr>role = User, content = ''m7''\<rparr>,
         \<lparr>role = Assistant, content = ''m8''\<rparr>,
         \<lparr>role = User, content = ''m9''\<rparr>,
         \<lparr>role = Assistant, content = ''m10''\<rparr>,
         \<lparr>role = User, content = ''m11''\<rparr>,
         \<lparr>role = Assistant, content = ''m12''\<rparr>]),
      redis_strings = (\<lambda>_. None), trace = []\<rparr>)))
     = EvTrimMessages ''s1'' 10
   \<and> length (redis_lists (snd (ask \<lparr>google_api_key = ''k'', default_provider = ''gemini'',
      gemini_model = ''gemini-2.0-flash'', ollama_host = ''http://localhost:11434'',
      ollama_model = ''llama3'', redis_url = ''redis://localhost:6379/0'',
      memory_strategy = ''rolling'', fetch_last_n = 10,
      max_tokens_before_summarize = 4000, max_messages = 10,
      keep_last = 4, window_size = 10\<rparr>
      \<lparr>genai_client = (\<lambda>_ _ _. Inr (Some ''g'')),
      ollama_client = (\<lambda>_ _ _. Inr (Some ''o''))\<rparr>
      ''hi'' ''ollama'' (Some ''s1'') (Some ''window'') None None (Some 0)
      \<lparr>redis_lists = (\<lambda>_. [])(key_messages ''s1'' :=
        [\<lparr>role = User, content = ''m1''\<rparr>,
         \<lparr>role = Assistant, content = ''m2''\<rparr>,
         \<lparr>role = User, content = ''m3''\<rparr>,
         \<lparr>role = Assistant, content = ''m4''\<rparr>,
         \<lparr>role = User, content = ''m5''\<rparr>,
         \<lparr>role = Assistant, content = ''m6''\<rparr>,
         \<lparr>role = User, content = ''m7''\<rparr>,
         \<lparr>role = Assistant, content = ''m8''\<rparr>,
         \<lparr>role = User, content = ''m9''\<rparr>,
         \<lparr>role = Assistant, content = ''m10''\<rparr>,
         \<lparr>role = User, content = ''m11''\<rparr>,
         \<lparr>role = Assistant, content = ''m12''\<rparr>]),
      redis_strings = (\<lambda>_. None), trace = []\<rparr>)) (key_messages ''s1'')) = 10"
  using ask_window
    [where s = "\<lparr>google_api_key = ''k'', default_provider = ''gemini'',
      gemini_model = ''gemini-2.0-flash'', ollama_host = ''http://localhost:11434'',
      ollama_model = ''llama3'', redis_url = ''redis://localhost:6379/0'',
      memory_strategy = ''rolling'', fetch_last_n = 10,
      max_tokens_before_summarize = 4000, max_messages = 10,
      keep_last = 4, window_size = 10\<rparr>"
       and k = "\<lparr>genai_client = (\<lambda>_ _ _. Inr (Some ''g'')),
      ollama_client = (\<lambda>_ _ _. Inr (Some ''o''))\<rparr>"
       and prov = "''ollama''" and provider_name = "''ollama''"
       and llm = "\<lparr>name = ''ollama'', model = ''llama3'', client = (\<lambda>_ _. Inr (Some ''o''))\<rparr>"
       and sid = "Some ''s1''" and i = "''s1''" and memory = "Some ''window''"
       and prompt = "''hi''"
       and max_messages_arg = None and keep_last_arg = None and window_size_arg = "Some 0"
       and w = "\<lparr>redis_lists = (\<lambda>_. [])(key_messages ''s1'' :=
        [\<lparr>role = User, content = ''m1''\<rparr>,
         \<lparr>role = Assistant, content = ''m2''\<rparr>,
         \<lparr>role = User, content = ''m3''\<rparr>,
         \<lparr>role = Assistant, content = ''m4''\<rparr>,
         \<lparr>role = User, content = ''m5''\<rparr>,
         \<lparr>role = Assistant, content = ''m6''\<rparr>,
         \<lparr>role = User, content = ''m7''\<rparr>,
         \<lparr>role = Assistant, content = ''m8''\<rparr>,
         \<lparr>role = User, content = ''m9''\<rparr>,
         \<lparr>role = Assistant, content = ''m10''\<rparr>,
         \<lparr>role = User, content = ''m11''\<rparr>,
         \<lparr>role = Assistant, content = ''m12''\<rparr>]),
      redis_strings = (\<lambda>_. None), trace = []\<rparr>"]
  by (simp add: get_provider_def ollama_provider_def lower_def lower_char_def or_str_def
      Let_def or_int_def get_summary_def lrange_def
      generate_eq append_messages_eq trim_messages_eq strip_def is_space_def)

section \<open>Properties of the ask operation: errors\<close>








end
